theory Spec2Isabelle
  imports Main "HOL-Library.AList"
begin

section \<open>WineCharm: process registry, liveness prober, launcher, gateway, terminator\<close>

text \<open>
  A shallow embedding of the process-lifecycle part of \<^verbatim>\<open>winecharm_49_search_esc_good.py\<close>.
  The methods of \<^verbatim>\<open>WineCharmApp\<close> that touch \<^verbatim>\<open>self.running_processes\<close>, the
  operating system or the rendezvous socket are translated one by one. The operating
  system, the file system and the widget tree are outside the program: they are an
  abstract state \<open>'os\<close> together with a record of the calls the program makes on it
  (\<open>'os system\<close>), so every theorem holds for whatever the calls answer. Python exceptions
  are values of type \<open>exn\<close>; a method returns \<open>None\<close> when it returns normally and
  \<open>Some e\<close> when exception \<open>e\<close> leaves it. Every call with an outside effect and every
  \<^verbatim>\<open>print\<close> is appended to a trace.
\<close>

subsection \<open>Strings and paths\<close>

type_synonym path = string

definition appname :: string where
  "appname = ''WineCharm''"

text \<open>\<^verbatim>\<open>str.lower\<close> on the ASCII letters.\<close>

definition lower_char :: "char \<Rightarrow> char" where
  "lower_char c =
     (let n = (of_char c :: nat) in if 65 \<le> n \<and> n \<le> 90 then char_of (n + 32) else c)"

definition lower :: "string \<Rightarrow> string" where
  "lower s = map lower_char s"

text \<open>\<^verbatim>\<open>a in b\<close> on strings: \<open>a\<close> occurs in \<open>b\<close> as a contiguous block.\<close>

fun is_prefix :: "string \<Rightarrow> string \<Rightarrow> bool" where
  "is_prefix [] ys = True"
| "is_prefix (x # xs) [] = False"
| "is_prefix (x # xs) (y # ys) = (x = y \<and> is_prefix xs ys)"

fun str_in :: "string \<Rightarrow> string \<Rightarrow> bool" where
  "str_in a [] = (a = [])"
| "str_in a (c # cs) = (is_prefix a (c # cs) \<or> str_in a cs)"

text \<open>\<^verbatim>\<open>Path(p).name\<close>: the last component. \<^verbatim>\<open>Path(p).stem\<close>: the name without its last
  suffix; pathlib cuts at the last dot unless that dot is the first or the last character
  of the name. \<^verbatim>\<open>Path(p).parent\<close>: everything before the last slash; the root for a
  name directly under it, and \<^verbatim>\<open>.\<close> for a bare name.\<close>

definition path_name :: "path \<Rightarrow> string" where
  "path_name p = rev (takeWhile (\<lambda>c. c \<noteq> CHR ''/'') (rev p))"

definition path_stem :: "path \<Rightarrow> string" where
  "path_stem p =
     (let n = path_name p;
          t = takeWhile (\<lambda>c. c \<noteq> CHR ''.'') (rev n);
          i = length n - length t - 1
      in if CHR ''.'' \<in> set n \<and> 0 < i \<and> t \<noteq> [] then take i n else n)"

definition path_parent :: "path \<Rightarrow> path" where
  "path_parent p =
     (let d = rev (drop 1 (dropWhile (\<lambda>c. c \<noteq> CHR ''/'') (rev p)))
      in if CHR ''/'' \<in> set p then (if d = [] then ''/'' else d) else ''.'')"

subsection \<open>Exceptions, widgets, the trace\<close>

datatype exn =
    FileNotFoundError
  | CalledProcessError
  | ProcessLookupError
  | PermissionError
  | ConnectionRefusedError
  | AttributeError
  | TypeError
  | ValueError
  | OSError

definition SIGKILL :: nat where
  "SIGKILL = 9"

text \<open>The pattern \<^verbatim>\<open>r"\.exe"\<close>: a backslash, a dot, \<^verbatim>\<open>exe\<close>.\<close>

definition exe_pattern :: string where
  "exe_pattern = CHR 0x5C # ''.exe''"

text \<open>A widget is named by the way the code reaches it from a flow-box child:
  \<^verbatim>\<open>button.get_first_child().get_next_sibling()\<close> is \<open>NextSibling (FirstChild b)\<close>.\<close>

datatype widget =
    FlowBoxChild string
  | PlayStopButton string
  | OptionButton string
  | FirstChild widget
  | NextSibling widget

datatype callback =
    ProcessEnded string
  | ProcessCliFile path
  | CreateScriptsForLnkFiles path
  | UpdateRelatedScriptsButtons path

datatype event =
    Print string
  | Sleep nat
  | Kill nat nat
  | Killpg nat nat
  | Spawn string
  | ThreadStart string
  | IdleAdd callback
  | SetChild widget string
  | SetTooltip widget string
  | ResetButtons widget string path
  | SelectChild widget
  | ShowExeNotFoundDialog string path path
  | CreateScriptList
  | SocketUnlink
  | SocketBind
  | SocketConnect
  | SocketSend string
  | AppRun

subsection \<open>The registry \<^verbatim>\<open>self.running_processes\<close>\<close>

text \<open>One entry of the dictionary, with the keys of the source as field names. The
  \<^verbatim>\<open>Popen\<close> handle is named by the pid of the child it owns.\<close>

record process_info =
  proc :: "nat option"
  pid :: "nat option"
  pgid :: "nat option"
  play_button :: widget
  play_icon :: string
  options_button :: widget
  gear_icon :: string
  script :: "path option"

text \<open>A Python dictionary keeps its keys in insertion order and the prober walks them
  in that order, so the registry is an association list. Assigning to a present key
  replaces the value in place, assigning to an absent key appends.\<close>

type_synonym registry = "(string \<times> process_info) list"

definition dict_keys :: "registry \<Rightarrow> string list" where
  "dict_keys reg = map fst reg"

definition dict_get :: "registry \<Rightarrow> string \<Rightarrow> process_info option" where
  "dict_get reg k = map_of reg k"

definition dict_setitem :: "string \<Rightarrow> process_info \<Rightarrow> registry \<Rightarrow> registry" where
  "dict_setitem k v reg = AList.update k v reg"

definition dict_pop :: "string \<Rightarrow> registry \<Rightarrow> registry" where
  "dict_pop k reg = AList.delete k reg"


subsection \<open>The outside world\<close>

text \<open>What \<^verbatim>\<open>yaml.safe_load\<close> gives for a descriptor file: a parse error, a document
  that is not a mapping (an empty file loads as \<^verbatim>\<open>None\<close>), or a mapping.\<close>

datatype yaml_doc =
    YamlError
  | YamlNone
  | YamlMap "(string \<times> string) list"

text \<open>One line of \<^verbatim>\<open>pgrep -a\<close>: the pid, a blank, the command text.\<close>

type_synonym pgrep_line = "nat \<times> string"

text \<open>The calls of the program on the outside world. Calls that only read take the state;
  calls that change it return the new one. \<open>pgrep\<close> takes the flags and the pattern and
  answers with the exception of \<^verbatim>\<open>subprocess.check_output\<close> or the lines printed.\<close>

record 'os system =
  path_exists :: "'os \<Rightarrow> path \<Rightarrow> bool"
  yaml_safe_load :: "'os \<Rightarrow> path \<Rightarrow> yaml_doc"
  resolve :: "'os \<Rightarrow> string \<Rightarrow> path"
  find_python_scripts :: "'os \<Rightarrow> path list"
  find_lnk_files :: "'os \<Rightarrow> path \<Rightarrow> exn option"
  find_button_by_script_stem :: "'os \<Rightarrow> string \<Rightarrow> widget option"
  pgrep :: "'os \<Rightarrow> string \<Rightarrow> string \<Rightarrow> exn + pgrep_line list"
  poll :: "'os \<Rightarrow> nat \<Rightarrow> int option"
  os_getpgid :: "'os \<Rightarrow> nat \<Rightarrow> exn + nat"
  os_kill :: "'os \<Rightarrow> nat \<Rightarrow> nat \<Rightarrow> exn option \<times> 'os"
  os_killpg :: "'os \<Rightarrow> nat \<Rightarrow> nat \<Rightarrow> exn option \<times> 'os"
  popen :: "'os \<Rightarrow> string \<Rightarrow> (exn + nat) \<times> 'os"
  glob :: "'os \<Rightarrow> path \<Rightarrow> string \<Rightarrow> exn + path list"
  getcwd :: "'os \<Rightarrow> path"
  socket_connect :: "'os \<Rightarrow> exn option"
  socket_sendall :: "'os \<Rightarrow> string \<Rightarrow> exn option"

text \<open>The state of the application: the world, the registry, the trace so far.\<close>

record 'os app =
  os :: 'os
  running_processes :: registry
  trace :: "event list"

definition emit :: "event \<Rightarrow> 'os app \<Rightarrow> 'os app" where
  "emit e s = s\<lparr>trace := trace s @ [e]\<rparr>"

definition emits :: "event list \<Rightarrow> 'os app \<Rightarrow> 'os app" where
  "emits es s = s\<lparr>trace := trace s @ es\<rparr>"

text \<open>The text of a \<^verbatim>\<open>pgrep -a\<close> line as the program reads it.\<close>

fun digits :: "nat \<Rightarrow> string" where
  "digits n = (if n < 10 then [char_of (48 + n)] else digits (n div 10) @ [char_of (48 + n mod 10)])"

declare digits.simps [simp del]

definition line_text :: "pgrep_line \<Rightarrow> string" where
  "line_text l = digits (fst l) @ '' '' @ snd l"

subsection \<open>\<^verbatim>\<open>on_kill_all_clicked\<close>\<close>

text \<open>The inner loop \<^verbatim>\<open>for pid in pids\<close>: \<^verbatim>\<open>os.kill(pid, SIGKILL)\<close> with
  \<^verbatim>\<open>ProcessLookupError\<close> and \<^verbatim>\<open>PermissionError\<close> caught; anything else leaves the loop.\<close>

fun kill_pids :: "'os system \<Rightarrow> nat list \<Rightarrow> 'os app \<Rightarrow> exn option \<times> 'os app" where
  "kill_pids I [] s = (None, s)"
| "kill_pids I (p # ps) s =
     (case os_kill I (os s) p SIGKILL of
        (None, w) \<Rightarrow>
          kill_pids I ps (emits [Kill p SIGKILL, Print ''Terminated process with PID''] (s\<lparr>os := w\<rparr>))
      | (Some ProcessLookupError, w) \<Rightarrow>
          kill_pids I ps (emits [Kill p SIGKILL, Print ''Process not found''] (s\<lparr>os := w\<rparr>))
      | (Some PermissionError, w) \<Rightarrow>
          kill_pids I ps (emits [Kill p SIGKILL, Print ''Permission denied to kill PID''] (s\<lparr>os := w\<rparr>))
      | (Some e, w) \<Rightarrow> (Some e, emit (Kill p SIGKILL) (s\<lparr>os := w\<rparr>)))"

text \<open>The pids collected from the \<^verbatim>\<open>.exe\<close> listing: PID 1 and the pids of the
  \<^verbatim>\<open>WineCharm\<close> listing are skipped, then the list is reversed.\<close>

definition kill_all_pids :: "pgrep_line list \<Rightarrow> pgrep_line list \<Rightarrow> nat list" where
  "kill_all_pids winecharm_pid_lines wine_exe_lines =
     (let winecharm_pids = map fst winecharm_pid_lines
      in rev (filter (\<lambda>p. p \<noteq> 1 \<and> p \<notin> set winecharm_pids) (map fst wine_exe_lines)))"

text \<open>The two nested \<^verbatim>\<open>try\<close> blocks. Both catch \<^verbatim>\<open>CalledProcessError\<close> only.\<close>

definition kill_all_try :: "'os system \<Rightarrow> 'os app \<Rightarrow> exn option \<times> 'os app" where
  "kill_all_try I s =
     (case pgrep I (os s) ''-aif'' appname of
        Inl CalledProcessError \<Rightarrow> (None, emit (Print ''Error retrieving process list'') s)
      | Inl e \<Rightarrow> (Some e, s)
      | Inr winecharm_pid_lines \<Rightarrow>
          (case pgrep I (os s) ''-aif'' exe_pattern of
             Inl CalledProcessError \<Rightarrow>
               (None, emit (Print ''No matching Wine exe processes found.'') s)
           | Inl e \<Rightarrow> (Some e, s)
           | Inr wine_exe_lines \<Rightarrow>
               (case kill_pids I (kill_all_pids winecharm_pid_lines wine_exe_lines) s of
                  (Some CalledProcessError, s') \<Rightarrow>
                    (None, emit (Print ''No matching Wine exe processes found.'') s')
                | r \<Rightarrow> r)))"

text \<open>After the \<^verbatim>\<open>try\<close>: the registry is cleared and the script list is rebuilt. The
  rebuild is the presentation layer's; it is one event of the trace.\<close>

definition on_kill_all_clicked :: "'os system \<Rightarrow> 'os app \<Rightarrow> exn option \<times> 'os app" where
  "on_kill_all_clicked I s =
     (case kill_all_try I s of
        (Some e, s') \<Rightarrow> (Some e, s')
      | (None, s') \<Rightarrow>
          (None,
           emits [Print ''All Wine exe processes killed except PID 1 and WineCharm processes'',
                  CreateScriptList]
             (s'\<lparr>running_processes := []\<rparr>)))"

subsection \<open>\<^verbatim>\<open>extract_yaml_info\<close>\<close>

text \<open>The four values read from a descriptor: \<^verbatim>\<open>exe_file\<close>, \<^verbatim>\<open>wineprefix\<close>,
  \<^verbatim>\<open>progname\<close>, \<^verbatim>\<open>args\<close>. A missing file raises; a YAML error gives the empty mapping;
  a document that is not a mapping has no \<^verbatim>\<open>get\<close>.\<close>

type_synonym yaml_info = "path \<times> path \<times> string \<times> string"

definition yaml_get :: "(string \<times> string) list \<Rightarrow> string \<Rightarrow> string" where
  "yaml_get data k = (case map_of data k of Some v \<Rightarrow> v | None \<Rightarrow> [])"

definition extract_yaml_info :: "'os system \<Rightarrow> 'os \<Rightarrow> path \<Rightarrow> exn + yaml_info" where
  "extract_yaml_info I w scr =
     (if \<not> path_exists I w scr then Inl FileNotFoundError
      else case yaml_safe_load I w scr of
             YamlNone \<Rightarrow> Inl AttributeError
           | YamlError \<Rightarrow> Inr (resolve I w [], resolve I w [], [], [])
           | YamlMap data \<Rightarrow>
               Inr (resolve I w (yaml_get data ''exe_file''),
                    resolve I w (yaml_get data ''wineprefix''),
                    yaml_get data ''progname'',
                    yaml_get data ''args''))"

subsection \<open>\<^verbatim>\<open>monitor_processes\<close>\<close>

text \<open>The body of \<^verbatim>\<open>for script_stem in running_processes_keys\<close> for one record; \<open>True\<close>
  is \<^verbatim>\<open>finished_processes.append(script_stem)\<close>. The pattern given to \<^verbatim>\<open>pgrep\<close> is
  \<^verbatim>\<open>process_info.get("script").stem[:15]\<close>. \<^verbatim>\<open>os.killpg(pgid, 0)\<close> delivers no signal, so
  the world it returns is dropped.\<close>

definition probe :: "'os system \<Rightarrow> 'os \<Rightarrow> process_info \<Rightarrow> exn + bool" where
  "probe I w process_info =
     (if (case proc process_info of Some h \<Rightarrow> poll I w h \<noteq> None | None \<Rightarrow> False) then Inr True
      else case script process_info of
             None \<Rightarrow> Inl AttributeError
           | Some scr \<Rightarrow>
               let exe_file = take 15 (path_stem scr) in
               (case pgid process_info of
                  Some g \<Rightarrow>
                    (case fst (os_killpg I w g 0) of
                       None \<Rightarrow> Inr False
                     | Some ProcessLookupError \<Rightarrow> Inr True
                     | Some e \<Rightarrow> Inl e)
                | None \<Rightarrow>
                    (case pgrep I w ''-aif'' exe_file of
                       Inr pgrep_output \<Rightarrow>
                         Inr (pgrep_output = [] \<or>
                              list_ex (\<lambda>line. str_in (lower appname) (lower (line_text line)))
                                pgrep_output)
                     | Inl CalledProcessError \<Rightarrow> Inr True
                     | Inl e \<Rightarrow> Inl e)))"

fun probe_all :: "'os system \<Rightarrow> 'os \<Rightarrow> registry \<Rightarrow> string list \<Rightarrow> exn + string list" where
  "probe_all I w reg [] = Inr []"
| "probe_all I w reg (script_stem # ks) =
     (case dict_get reg script_stem of
        None \<Rightarrow> probe_all I w reg ks
      | Some process_info \<Rightarrow>
          (case probe I w process_info of
             Inl e \<Rightarrow> Inl e
           | Inr fin \<Rightarrow>
               (case probe_all I w reg ks of
                  Inl e \<Rightarrow> Inl e
                | Inr finished_processes \<Rightarrow>
                    Inr (if fin then script_stem # finished_processes else finished_processes))))"

text \<open>One pass of the \<^verbatim>\<open>while True\<close> body after the sleep: the stems to retire, or the
  exception that leaves the loop.\<close>

definition monitor_cycle :: "'os system \<Rightarrow> 'os \<Rightarrow> registry \<Rightarrow> exn + string list" where
  "monitor_cycle I w reg = probe_all I w reg (dict_keys reg)"

text \<open>The thread. It shares the registry with the owner thread and the world moves on
  between passes, so the loop is run on the list of what it finds at each wake-up. It has
  no handler: the first exception ends it. The retirements are not done here; they are
  queued with \<^verbatim>\<open>GLib.idle_add(self.process_ended, script_stem)\<close>.\<close>

fun monitor_processes ::
  "'os system \<Rightarrow> ('os \<times> registry) list \<Rightarrow> event list \<times> exn option" where
  "monitor_processes I [] = ([], None)"
| "monitor_processes I ((w, reg) # later) =
     (case monitor_cycle I w reg of
        Inl e \<Rightarrow> ([Sleep 3], Some e)
      | Inr finished_processes \<Rightarrow>
          (let (evs, r) = monitor_processes I later
           in (Sleep 3 # map (\<lambda>k. IdleAdd (ProcessEnded k)) finished_processes @ evs, r)))"

subsection \<open>\<^verbatim>\<open>update_related_scripts_buttons\<close> and \<^verbatim>\<open>process_ended\<close>\<close>

definition discovered_info :: "widget \<Rightarrow> path \<Rightarrow> process_info" where
  "discovered_info button scr =
     \<lparr>proc = None, pid = None, pgid = None,
      play_button = NextSibling (FirstChild button),
      play_icon = ''media-playback-stop-symbolic'',
      options_button = FirstChild button,
      gear_icon = ''emblem-system-symbolic'',
      script = Some scr\<rparr>"

fun update_related_loop ::
  "'os system \<Rightarrow> path \<Rightarrow> path list \<Rightarrow> 'os app \<Rightarrow> exn option \<times> 'os app" where
  "update_related_loop I wineprefix [] s = (None, s)"
| "update_related_loop I wineprefix (scr # scripts) s =
     (case extract_yaml_info I (os s) scr of
        Inl e \<Rightarrow> (Some e, s)
      | Inr (script_exe_file, script_wineprefix, progname, args) \<Rightarrow>
          if script_wineprefix = wineprefix then
            (case pgrep I (os s) ''-ai'' (take 15 (path_stem script_exe_file)) of
               Inl CalledProcessError \<Rightarrow> update_related_loop I wineprefix scripts s
             | Inl e \<Rightarrow> (Some e, s)
             | Inr pgrep_output \<Rightarrow>
                 if pgrep_output \<noteq> [] then
                   (case find_button_by_script_stem I (os s) (path_stem scr) of
                      None \<Rightarrow> update_related_loop I wineprefix scripts s
                    | Some button \<Rightarrow>
                        update_related_loop I wineprefix scripts
                          (emit (SelectChild button)
                            ((emits
                               [SetChild (NextSibling (FirstChild button)) ''media-playback-stop-symbolic'',
                                SetTooltip (NextSibling (FirstChild button)) ''Stop''] s)
                             \<lparr>running_processes :=
                                dict_setitem (path_stem scr) (discovered_info button scr)
                                  (running_processes s)\<rparr>)))
                 else update_related_loop I wineprefix scripts s)
          else update_related_loop I wineprefix scripts s)"

definition update_related_scripts_buttons ::
  "'os system \<Rightarrow> path \<Rightarrow> 'os app \<Rightarrow> exn option \<times> 'os app" where
  "update_related_scripts_buttons I wineprefix s =
     update_related_loop I wineprefix (find_python_scripts I (os s)) s"

definition process_ended :: "'os system \<Rightarrow> string \<Rightarrow> 'os app \<Rightarrow> exn option \<times> 'os app" where
  "process_ended I script_stem s =
     (case dict_get (running_processes s) script_stem of
        None \<Rightarrow> (None, s)
      | Some process_info \<Rightarrow>
          (let s1 = emits [SetChild (play_button process_info) ''media-playback-start-symbolic'',
                           SetTooltip (play_button process_info) ''Play'']
                      (s\<lparr>running_processes := dict_pop script_stem (running_processes s)\<rparr>)
           in case script process_info of
                None \<Rightarrow> (Some AttributeError, s1)
              | Some scr \<Rightarrow>
                  (case extract_yaml_info I (os s1) scr of
                     Inl e \<Rightarrow> (Some e, s1)
                   | Inr (exe_file, wineprefix, progname, args) \<Rightarrow>
                       update_related_scripts_buttons I wineprefix s1)))"

subsection \<open>\<^verbatim>\<open>terminate_script\<close> and \<^verbatim>\<open>stop_script\<close>\<close>

text \<open>The loop \<^verbatim>\<open>for pid in pids_to_kill\<close>. A pid of the \<^verbatim>\<open>WineCharm\<close> listing is
  skipped. \<^verbatim>\<open>os.kill(int(pid), signal.SIGKILL)\<close> has a handler for
  \<^verbatim>\<open>ProcessLookupError\<close> only. After a kill that succeeded the buttons are reset and the
  scripts of the prefix are scanned again.\<close>

fun terminate_loop ::
  "'os system \<Rightarrow> path \<Rightarrow> process_info \<Rightarrow> path \<Rightarrow> nat list \<Rightarrow> nat list \<Rightarrow> 'os app
     \<Rightarrow> exn option \<times> 'os app" where
  "terminate_loop I scr process_info wineprefix winecharm_pids [] s = (None, s)"
| "terminate_loop I scr process_info wineprefix winecharm_pids (p # pids_to_kill) s =
     (if p \<in> set winecharm_pids then
        terminate_loop I scr process_info wineprefix winecharm_pids pids_to_kill
          (emit (Print ''Skipping termination of WineCharm process'') s)
      else
        (case os_kill I (os s) p SIGKILL of
           (Some ProcessLookupError, w) \<Rightarrow>
             terminate_loop I scr process_info wineprefix winecharm_pids pids_to_kill
               (emit (Kill p SIGKILL) (s\<lparr>os := w\<rparr>))
         | (Some e, w) \<Rightarrow> (Some e, emit (Kill p SIGKILL) (s\<lparr>os := w\<rparr>))
         | (None, w) \<Rightarrow>
             (case update_related_scripts_buttons I wineprefix
                     (emits [Kill p SIGKILL, Print ''Terminated PID'',
                             Print (''Terminated wine process for '' @ scr),
                             ResetButtons (play_button process_info) (play_icon process_info) scr]
                        (s\<lparr>os := w\<rparr>)) of
                (Some e, s') \<Rightarrow> (Some e, s')
              | (None, s') \<Rightarrow>
                  terminate_loop I scr process_info wineprefix winecharm_pids pids_to_kill s')))"

text \<open>The \<^verbatim>\<open>try\<close> block of \<^verbatim>\<open>terminate_script\<close>, entered after the record was popped
  and the descriptor read. Its only handler is for \<^verbatim>\<open>subprocess.CalledProcessError\<close>.\<close>

definition terminate_try ::
  "'os system \<Rightarrow> path \<Rightarrow> process_info \<Rightarrow> path \<Rightarrow> path \<Rightarrow> 'os app \<Rightarrow> exn option \<times> 'os app" where
  "terminate_try I scr process_info exe_file wineprefix s =
     (let exe_name_upto_fifteen_chars = take 15 (path_stem exe_file) in
      case pgrep I (os s) ''-aif'' exe_name_upto_fifteen_chars of
        Inl CalledProcessError \<Rightarrow>
          (None, emit (Print (''No processes found for '' @ exe_name_upto_fifteen_chars)) s)
      | Inl e \<Rightarrow> (Some e, s)
      | Inr pgrep_output \<Rightarrow>
          (case pgrep I (os s) ''-aif'' appname of
             Inl CalledProcessError \<Rightarrow>
               (None, emit (Print (''No processes found for '' @ exe_name_upto_fifteen_chars)) s)
           | Inl e \<Rightarrow> (Some e, s)
           | Inr winecharm_pid_lines \<Rightarrow>
               (case terminate_loop I scr process_info wineprefix (map fst winecharm_pid_lines)
                       (map fst pgrep_output) s of
                  (Some CalledProcessError, s') \<Rightarrow>
                    (None, emit (Print (''No processes found for '' @ exe_name_upto_fifteen_chars)) s')
                | r \<Rightarrow> r)))"

definition terminate_script :: "'os system \<Rightarrow> path \<Rightarrow> 'os app \<Rightarrow> exn option \<times> 'os app" where
  "terminate_script I scr s =
     (let s0 = emit (Print (''Terminating script: '' @ scr)) s in
      case dict_get (running_processes s0) (path_stem scr) of
        None \<Rightarrow> (None, emit (Print (''No running process found for '' @ scr)) s0)
      | Some process_info \<Rightarrow>
          (let s1 = s0\<lparr>running_processes := dict_pop (path_stem scr) (running_processes s0)\<rparr> in
           case extract_yaml_info I (os s1) scr of
             Inl e \<Rightarrow> (Some e, s1)
           | Inr (exe_file, wineprefix, progname, args) \<Rightarrow>
               terminate_try I scr process_info exe_file wineprefix s1))"

text \<open>\<^verbatim>\<open>stop_script\<close> signals the process group. Nothing calls it. Its call of
  \<^verbatim>\<open>reset_buttons\<close> passes five arguments to a method of three, which raises
  \<^verbatim>\<open>TypeError\<close> after the signal was sent.\<close>

definition stop_script ::
  "'os system \<Rightarrow> process_info option \<Rightarrow> 'os app \<Rightarrow> exn option \<times> 'os app" where
  "stop_script I info s =
     (case info of
        None \<Rightarrow> (None, emit (Print ''No running process found'') s)
      | Some process_info \<Rightarrow>
          (case pid process_info of
             None \<Rightarrow> (Some TypeError, s)
           | Some p \<Rightarrow>
               (case os_getpgid I (os s) p of
                  Inl ProcessLookupError \<Rightarrow>
                    (None, emit (Print ''Error terminating wine process'') s)
                | Inl e \<Rightarrow> (Some e, s)
                | Inr g \<Rightarrow>
                    (case os_killpg I (os s) g SIGKILL of
                       (Some ProcessLookupError, w) \<Rightarrow>
                         (None, emits [Killpg g SIGKILL, Print ''Error terminating wine process'']
                                  (s\<lparr>os := w\<rparr>))
                     | (Some e, w) \<Rightarrow> (Some e, emit (Killpg g SIGKILL) (s\<lparr>os := w\<rparr>))
                     | (None, w) \<Rightarrow>
                         (Some TypeError,
                          emits [Killpg g SIGKILL, Print ''Terminated wine process with PID'']
                            (s\<lparr>os := w\<rparr>))))))"

subsection \<open>\<^verbatim>\<open>launch_script\<close> and \<^verbatim>\<open>toggle_play_stop\<close>\<close>

text \<open>\<^verbatim>\<open>shlex.quote\<close>: the empty string becomes two quotes, a string of safe characters
  stays, anything else is wrapped in single quotes with each single quote escaped.\<close>

definition safe_char :: "char \<Rightarrow> bool" where
  "safe_char c =
     (let n = (of_char c :: nat)
      in (48 \<le> n \<and> n \<le> 57) \<or> (65 \<le> n \<and> n \<le> 90) \<or> (97 \<le> n \<and> n \<le> 122) \<or>
         c \<in> set ''_@%+=:,./-'')"

definition shlex_quote :: "string \<Rightarrow> string" where
  "shlex_quote x =
     (if x = [] then [CHR 0x27, CHR 0x27]
      else if list_all safe_char x then x
      else [CHR 0x27] @
           concat (map (\<lambda>c. if c = CHR 0x27
                             then [CHR 0x27, CHR 0x22, CHR 0x27, CHR 0x22, CHR 0x27]
                             else [c]) x) @
           [CHR 0x27])"

definition wine_command :: "path \<Rightarrow> path \<Rightarrow> string \<Rightarrow> string" where
  "wine_command exe_file wineprefix script_args =
     ''cd '' @ shlex_quote (path_parent exe_file) @ '' && WINEPREFIX='' @ shlex_quote wineprefix @
     '' wine '' @ shlex_quote (path_name exe_file) @ '' '' @ script_args"

text \<open>\<^verbatim>\<open>update_running_script_buttons\<close> only draws: a stop icon on every button of a
  registered stem.\<close>

definition update_running_script_buttons :: "'os system \<Rightarrow> 'os app \<Rightarrow> 'os app" where
  "update_running_script_buttons I s =
     emits (concat (map (\<lambda>script_stem.
                 case find_button_by_script_stem I (os s) script_stem of
                   None \<Rightarrow> []
                 | Some button \<Rightarrow>
                     [SetChild (NextSibling (FirstChild button)) ''media-playback-stop-symbolic'',
                      SetTooltip (NextSibling (FirstChild button)) ''Stop''])
               (dict_keys (running_processes s)))) s"

definition launched_info :: "nat \<Rightarrow> nat \<Rightarrow> widget \<Rightarrow> widget \<Rightarrow> path \<Rightarrow> process_info" where
  "launched_info child g play_stop_button button scr =
     \<lparr>proc = Some child, pid = Some child, pgid = Some g,
      play_button = play_stop_button,
      play_icon = ''media-playback-stop-symbolic'',
      options_button = FirstChild button,
      gear_icon = ''emblem-system-symbolic'',
      script = Some scr\<rparr>"

text \<open>The \<^verbatim>\<open>try\<close> block of \<^verbatim>\<open>launch_script\<close>; its handler is \<^verbatim>\<open>except Exception\<close>, so
  it always returns. The child is started with \<^verbatim>\<open>preexec_fn=os.setsid\<close>. \<open>button\<close> is
  \<open>None\<close> when the caller's \<^verbatim>\<open>find_button_by_script_stem\<close> found nothing; then
  \<^verbatim>\<open>button.get_first_child()\<close> raises inside the block.\<close>

definition launch_try ::
  "'os system \<Rightarrow> path \<Rightarrow> widget \<Rightarrow> widget option \<Rightarrow> path \<Rightarrow> string \<Rightarrow> 'os app \<Rightarrow> 'os app" where
  "launch_try I scr play_stop_button button wineprefix command s =
     (case find_lnk_files I (os s) wineprefix of
        Some e \<Rightarrow> emit (Print ''Error launching script'') s
      | None \<Rightarrow>
          (case popen I (os s) command of
             (Inl e, w) \<Rightarrow> emit (Print ''Error launching script'') (s\<lparr>os := w\<rparr>)
           | (Inr child, w) \<Rightarrow>
               (let s1 = emit (Spawn command) (s\<lparr>os := w\<rparr>) in
                case os_getpgid I (os s1) child of
                  Inl e \<Rightarrow> emit (Print ''Error launching script'') s1
                | Inr g \<Rightarrow>
                    (case button of
                       None \<Rightarrow>
                         emits [Print ''Launched script with PID'', Print ''Error launching script''] s1
                     | Some b \<Rightarrow>
                         update_running_script_buttons I
                           (emit (ThreadStart ''monitor_process'')
                             ((emit (Print ''Launched script with PID'') s1)
                              \<lparr>running_processes :=
                                 dict_setitem (path_stem scr)
                                   (launched_info child g play_stop_button b scr)
                                   (running_processes s1)\<rparr>))))))"

definition launch_script ::
  "'os system \<Rightarrow> path \<Rightarrow> widget \<Rightarrow> widget option \<Rightarrow> 'os app \<Rightarrow> exn option \<times> 'os app" where
  "launch_script I scr play_stop_button button s =
     (let s0 = emit (Print (''Launching script '' @ scr)) s in
      case extract_yaml_info I (os s0) scr of
        Inl e \<Rightarrow> (Some e, s0)
      | Inr (exe_file, wineprefix, progname, script_args) \<Rightarrow>
          if \<not> path_exists I (os s0) exe_file then
            (None, emit (ShowExeNotFoundDialog (path_name exe_file) exe_file scr) s0)
          else
            (None, launch_try I scr play_stop_button button wineprefix
                     (wine_command exe_file wineprefix script_args) s0))"



subsection \<open>The rendezvous socket: \<^verbatim>\<open>main\<close> and \<^verbatim>\<open>start_socket_server\<close>\<close>

definition SOCKET_FILE :: path where
  "SOCKET_FILE = ''~/.var/app/io.github.fastrizwaan.WineCharm/data/winecharm/winecharm_socket''"

text \<open>\<^verbatim>\<open>message.split("||")\<close>: cut at each leftmost occurrence of two bars.
  \<^verbatim>\<open>file_path.split("/")\<close>: cut at each slash.\<close>

fun split_bars :: "string \<Rightarrow> string \<Rightarrow> string list" where
  "split_bars acc [] = [rev acc]"
| "split_bars acc [c] = [rev (c # acc)]"
| "split_bars acc (c # d # cs) =
     (if c = CHR ''|'' \<and> d = CHR ''|'' then rev acc # split_bars [] cs
      else split_bars (c # acc) (d # cs))"

fun split_slash :: "string \<Rightarrow> string \<Rightarrow> string list" where
  "split_slash acc [] = [rev acc]"
| "split_slash acc (c # cs) =
     (if c = CHR ''/'' then rev acc # split_slash [] cs else split_slash (c # acc) cs)"

fun join_slash :: "string list \<Rightarrow> string" where
  "join_slash [] = []"
| "join_slash [x] = x"
| "join_slash (x # y # xs) = x @ ''/'' @ join_slash (y # xs)"

text \<open>\<^verbatim>\<open>base_path / directory\<close>: an absolute right operand replaces the left one, an
  empty one leaves it, and an empty left operand gives the right one.\<close>

definition path_join :: "path \<Rightarrow> string \<Rightarrow> path" where
  "path_join base d =
     (if d = [] then base
      else if hd d = CHR ''/'' then d
      else if base = [] then d
      else if last base = CHR ''/'' then base @ d
      else base @ ''/'' @ d)"

text \<open>What the accept loop does with one received message. The tuple assignment
  \<^verbatim>\<open>cwd, file_path = message.split("||")\<close> needs exactly two parts. Every path that
  exists is queued for the owner thread with \<^verbatim>\<open>GLib.idle_add(self.process_cli_file, ...)\<close>.\<close>

definition handle_message :: "'os system \<Rightarrow> 'os \<Rightarrow> string \<Rightarrow> exn + event list" where
  "handle_message I w received =
     (let message = take 1024 received in
      if message = [] then Inr []
      else
        (case split_bars [] message of
           [cwd, file_path] \<Rightarrow>
             (let parts = split_slash [] file_path;
                  pattern = last parts;
                  directory = join_slash (butlast parts);
                  search_path = path_join cwd directory
              in if \<not> path_exists I w search_path then
                   Inr [Print (''Directory does not exist: '' @ search_path)]
                 else
                   (case glob I w search_path pattern of
                      Inl e \<Rightarrow> Inl e
                    | Inr abs_file_paths \<Rightarrow>
                        if abs_file_paths \<noteq> [] then
                          Inr (concat (map (\<lambda>abs_file_path.
                                 if path_exists I w abs_file_path then
                                   [Print (''Resolved absolute file path: '' @ abs_file_path),
                                    IdleAdd (ProcessCliFile abs_file_path)]
                                 else [Print (''File does not exist: '' @ abs_file_path)])
                               abs_file_paths))
                        else Inr [Print (''No files matched the pattern: '' @ file_path)]))
         | _ \<Rightarrow> Inl ValueError))"

text \<open>The accept loop on the connections that arrive, each with the world at that moment.
  The loop has no handler: an exception ends the thread and later connections are not
  served.\<close>

fun accept_loop :: "'os system \<Rightarrow> ('os \<times> string) list \<Rightarrow> event list \<times> exn option" where
  "accept_loop I [] = ([], None)"
| "accept_loop I ((w, received) # later) =
     (case handle_message I w received of
        Inl e \<Rightarrow> ([], Some e)
      | Inr evs \<Rightarrow> (let (evs', r) = accept_loop I later in (evs @ evs', r)))"

definition server_thread :: "'os system \<Rightarrow> 'os \<Rightarrow> ('os \<times> string) list \<Rightarrow> event list \<times> exn option" where
  "server_thread I w connections =
     (let (evs, r) = accept_loop I connections
      in ((if path_exists I w SOCKET_FILE then [SocketUnlink] else []) @ [SocketBind] @ evs, r))"




subsection \<open>Reading the trace\<close>

definition kills_of :: "event list \<Rightarrow> (nat \<times> nat) list" where
  "kills_of es = concat (map (\<lambda>e. case e of Kill p sg \<Rightarrow> [(p, sg)] | _ \<Rightarrow> []) es)"

definition group_kills_of :: "event list \<Rightarrow> (nat \<times> nat) list" where
  "group_kills_of es = concat (map (\<lambda>e. case e of Killpg g sg \<Rightarrow> [(g, sg)] | _ \<Rightarrow> []) es)"

definition spawns_of :: "event list \<Rightarrow> event list" where
  "spawns_of es = filter (\<lambda>e. case e of Spawn c \<Rightarrow> True | _ \<Rightarrow> False) es"

definition handoffs_of :: "event list \<Rightarrow> path list" where
  "handoffs_of es =
     concat (map (\<lambda>e. case e of IdleAdd (ProcessCliFile f) \<Rightarrow> [f] | _ \<Rightarrow> []) es)"

text \<open>What the operating system promises about the calls: \<^verbatim>\<open>pgrep\<close> is installed, so
  \<^verbatim>\<open>check_output\<close> gives its output or \<^verbatim>\<open>CalledProcessError\<close>; \<^verbatim>\<open>kill(2)\<close> fails with
  \<^verbatim>\<open>ESRCH\<close> or \<^verbatim>\<open>EPERM\<close> only.\<close>

definition pgrep_runs :: "'os system \<Rightarrow> 'os \<Rightarrow> bool" where
  "pgrep_runs I w =
     (\<forall>flags pat. case pgrep I w flags pat of Inl e \<Rightarrow> e = CalledProcessError | Inr out \<Rightarrow> True)"

definition kill_errno :: "'os system \<Rightarrow> bool" where
  "kill_errno I =
     (\<forall>w p sg. fst (os_kill I w p sg) \<in> {None, Some ProcessLookupError, Some PermissionError})"

definition keys_distinct :: "'os app \<Rightarrow> bool" where
  "keys_distinct s = distinct (dict_keys (running_processes s))"

text \<open>A step from \<open>s\<close> to \<open>s'\<close> that keeps the keys of the registry distinct and starts no
  process.\<close>

definition quiet :: "'os app \<Rightarrow> 'os app \<Rightarrow> bool" where
  "quiet s s' =
     ((keys_distinct s \<longrightarrow> keys_distinct s') \<and> spawns_of (trace s') = spawns_of (trace s))"

subsection \<open>A process table to run the program on\<close>

text \<open>A small world for running the definitions: a process table in listing order, the
  files that exist, the descriptors, the labels of the flow box. \<open>p_foreign\<close> marks a
  process of another user. \<^verbatim>\<open>pgrep -i\<close> is taken as a case-blind search for the pattern
  with its backslash escapes removed, in the command line with \<^verbatim>\<open>-f\<close> and in the
  process name without.\<close>

record os_process =
  p_pid :: nat
  p_pgid :: nat
  p_comm :: string
  p_cmdline :: string
  p_foreign :: bool

record world =
  procs :: "os_process list"
  files :: "path list"
  descriptors :: "(path \<times> yaml_doc) list"
  flowbox :: "string list"
  pgrep_installed :: bool
  cwd :: path
  listening :: bool

fun unescape :: "string \<Rightarrow> string" where
  "unescape [] = []"
| "unescape [c] = [c]"
| "unescape (c # d # cs) = (if c = CHR 0x5C then d # unescape cs else c # unescape (d # cs))"

definition world_pgrep :: "world \<Rightarrow> string \<Rightarrow> string \<Rightarrow> exn + pgrep_line list" where
  "world_pgrep w flags pat =
     (if pgrep_installed w then
        (let field = (if CHR ''f'' \<in> set flags then p_cmdline else p_comm);
             hits = filter (\<lambda>p. str_in (lower (unescape pat)) (lower (field p))) (procs w)
         in if hits = [] then Inl CalledProcessError
            else Inr (map (\<lambda>p. (p_pid p, p_cmdline p)) hits))
      else Inl FileNotFoundError)"

definition world_kill :: "world \<Rightarrow> nat \<Rightarrow> nat \<Rightarrow> exn option \<times> world" where
  "world_kill w n sg =
     (case filter (\<lambda>p. p_pid p = n) (procs w) of
        [] \<Rightarrow> (Some ProcessLookupError, w)
      | p # ps \<Rightarrow>
          if p_foreign p then (Some PermissionError, w)
          else if sg = 0 then (None, w)
          else (None, w\<lparr>procs := filter (\<lambda>p. \<not> p_pid p = n) (procs w)\<rparr>))"

definition world_killpg :: "world \<Rightarrow> nat \<Rightarrow> nat \<Rightarrow> exn option \<times> world" where
  "world_killpg w g sg =
     (let members = filter (\<lambda>p. p_pgid p = g) (procs w)
      in if members = [] then (Some ProcessLookupError, w)
         else if list_all p_foreign members then (Some PermissionError, w)
         else if sg = 0 then (None, w)
         else (None, w\<lparr>procs := filter (\<lambda>p. if p_pgid p = g then p_foreign p else True)
                                    (procs w)\<rparr>))"

definition world_popen :: "world \<Rightarrow> string \<Rightarrow> (exn + nat) \<times> world" where
  "world_popen w command =
     (let n = Suc (fold max (map p_pid (procs w)) 1)
      in (Inr n,
          w\<lparr>procs := procs w @
               [\<lparr>p_pid = n, p_pgid = n, p_comm = ''sh'',
                 p_cmdline = ''/bin/sh -c '' @ command, p_foreign = False\<rparr>]\<rparr>))"

fun fnmatch :: "string \<Rightarrow> string \<Rightarrow> bool" where
  "fnmatch [] x = (x = [])"
| "fnmatch (p # ps) [] = (p = CHR ''*'' \<and> fnmatch ps [])"
| "fnmatch (p # ps) (c # cs) =
     (if p = CHR ''*'' then fnmatch ps (c # cs) \<or> fnmatch (p # ps) cs
      else (p = CHR ''?'' \<or> p = c) \<and> fnmatch ps cs)"

definition world_glob :: "world \<Rightarrow> path \<Rightarrow> string \<Rightarrow> exn + path list" where
  "world_glob w dir pat =
     (if pat = [] then Inl ValueError
      else Inr (filter (\<lambda>f. path_parent f = dir \<and> fnmatch pat (path_name f)) (files w)))"

definition posix :: "world system" where
  "posix =
     \<lparr>path_exists = (\<lambda>w p. p \<in> set (files w) \<or> p \<in> set (map path_parent (files w))),
      yaml_safe_load = (\<lambda>w p. case map_of (descriptors w) p of Some d \<Rightarrow> d | None \<Rightarrow> YamlNone),
      resolve = (\<lambda>w p. p),
      find_python_scripts = (\<lambda>w. filter (\<lambda>p. p \<in> set (files w)) (map fst (descriptors w))),
      find_lnk_files = (\<lambda>w p. None),
      find_button_by_script_stem =
        (\<lambda>w stem. if stem \<in> set (flowbox w) then Some (FlowBoxChild stem) else None),
      pgrep = world_pgrep,
      poll = (\<lambda>w n. if n \<in> set (map p_pid (procs w)) then None else Some 0),
      os_getpgid =
        (\<lambda>w n. case filter (\<lambda>p. p_pid p = n) (procs w) of
                  [] \<Rightarrow> Inl ProcessLookupError
                | p # ps \<Rightarrow> Inr (p_pgid p)),
      os_kill = world_kill,
      os_killpg = world_killpg,
      popen = world_popen,
      glob = world_glob,
      getcwd = cwd,
      socket_connect = (\<lambda>w. if listening w then None else Some ConnectionRefusedError),
      socket_sendall = (\<lambda>w m. None)\<rparr>"

subsection \<open>Scenarios\<close>

definition init_process :: os_process where
  "init_process =
     \<lparr>p_pid = 1, p_pgid = 1, p_comm = ''init.exe'', p_cmdline = ''/sbin/init.exe'',
      p_foreign = True\<rparr>"

definition winecharm_process :: os_process where
  "winecharm_process =
     \<lparr>p_pid = 40, p_pgid = 40, p_comm = ''python3'', p_cmdline = ''python3 /app/bin/winecharm'',
      p_foreign = False\<rparr>"

definition empty_world :: world where
  "empty_world =
     \<lparr>procs = [init_process, winecharm_process], files = [], descriptors = [], flowbox = [],
      pgrep_installed = True, cwd = ''/home/u'', listening = False\<rparr>"

text \<open>A prefix \<^verbatim>\<open>/p\<close> with one descriptor \<^verbatim>\<open>game.charm\<close> for \<^verbatim>\<open>/p/game.exe\<close>.\<close>

definition game_descriptor :: yaml_doc where
  "game_descriptor =
     YamlMap [(''exe_file'', ''/p/game.exe''), (''wineprefix'', ''/p''),
              (''progname'', ''game''), (''args'', [])]"

definition game_world :: world where
  "game_world =
     empty_world\<lparr>files := [''/p/game.charm'', ''/p/game.exe''],
                 descriptors := [(''/p/game.charm'', game_descriptor)],
                 flowbox := [''game'']\<rparr>"




text \<open>Three \<^verbatim>\<open>.exe\<close> processes besides PID 1 and the application; pid 51 is another
  user's.\<close>

definition exe_world :: world where
  "exe_world =
     empty_world\<lparr>procs :=
       [init_process, winecharm_process,
        \<lparr>p_pid = 50, p_pgid = 50, p_comm = ''game.exe'', p_cmdline = ''Z:/p/game.exe'',
         p_foreign = False\<rparr>,
        \<lparr>p_pid = 51, p_pgid = 51, p_comm = ''other.exe'', p_cmdline = ''Z:/q/other.exe'',
         p_foreign = True\<rparr>,
        \<lparr>p_pid = 52, p_pgid = 50, p_comm = ''helper.exe'', p_cmdline = ''Z:/p/helper.exe'',
         p_foreign = False\<rparr>]\<rparr>"

definition exe_app :: "world app" where
  "exe_app =
     \<lparr>os = exe_world,
      running_processes = [(''game'', discovered_info (FlowBoxChild ''game'') ''/p/game.charm'')],
      trace = []\<rparr>"

text \<open>The same registry where no process carries the application's name, so the first
  listing fails.\<close>

definition unlisted_app :: "world app" where
  "unlisted_app = exe_app\<lparr>os := exe_world\<lparr>procs := [init_process]\<rparr>\<rparr>"

text \<open>A descriptor whose executable \<^verbatim>\<open>/tmp/app.exe\<close> is not there.\<close>

definition missing_world :: world where
  "missing_world =
     empty_world\<lparr>files := [''/p/A.charm''],
                 descriptors :=
                   [(''/p/A.charm'',
                     YamlMap [(''exe_file'', ''/tmp/app.exe''), (''wineprefix'', ''/p''),
                              (''progname'', ''A''), (''args'', [])])],
                 flowbox := [''A'']\<rparr>"

definition missing_app :: "world app" where
  "missing_app = \<lparr>os = missing_world, running_processes = [], trace = []\<rparr>"

text \<open>A launch of \<^verbatim>\<open>game.charm\<close> as pid 50 in its own group 50, with the program and a
  worker of the compatibility layer in the same group.\<close>

definition group_world :: world where
  "group_world =
     game_world\<lparr>procs :=
       [init_process, winecharm_process,
        \<lparr>p_pid = 50, p_pgid = 50, p_comm = ''sh'',
         p_cmdline = ''/bin/sh -c cd /p && WINEPREFIX=/p wine game.exe '', p_foreign = False\<rparr>,
        \<lparr>p_pid = 51, p_pgid = 50, p_comm = ''game.exe'', p_cmdline = ''Z:/p/game.exe'',
         p_foreign = False\<rparr>,
        \<lparr>p_pid = 52, p_pgid = 50, p_comm = ''winedevice.exe'',
         p_cmdline = ''C:/windows/system32/winedevice.exe'', p_foreign = False\<rparr>]\<rparr>"

definition group_app :: "world app" where
  "group_app =
     \<lparr>os = group_world,
      running_processes =
        [(''game'', launched_info 50 50 (PlayStopButton ''game'') (FlowBoxChild ''game'')
                     ''/p/game.charm'')],
      trace = []\<rparr>"

text \<open>Another user runs a \<^verbatim>\<open>game.exe\<close> of their own.\<close>

definition foreign_world :: world where
  "foreign_world =
     game_world\<lparr>procs :=
       [init_process, winecharm_process,
        \<lparr>p_pid = 60, p_pgid = 60, p_comm = ''game.exe'', p_cmdline = ''Z:/q/game.exe'',
         p_foreign = True\<rparr>]\<rparr>"

definition foreign_app :: "world app" where
  "foreign_app =
     \<lparr>os = foreign_world,
      running_processes = [(''game'', discovered_info (FlowBoxChild ''game'') ''/p/game.charm'')],
      trace = []\<rparr>"





text \<open>The gateway: \<^verbatim>\<open>/home/u/games/setup.exe\<close> exists; an instance listens on the socket.\<close>

definition setup_world :: world where
  "setup_world = empty_world\<lparr>files := [''/home/u/games/setup.exe'']\<rparr>"


subsection \<open>Facts about the kill loop\<close>


lemma kill_errno_posix: "kill_errno posix"
  by (auto simp: kill_errno_def posix_def world_kill_def split: list.splits)

lemma kill_pids_all:
  assumes "kill_errno I"
  shows "fst (kill_pids I ps s) = None \<and>
         kills_of (trace (snd (kill_pids I ps s))) = kills_of (trace s) @ map (\<lambda>p. (p, SIGKILL)) ps"
proof (induction ps arbitrary: s)
  case Nil
  show ?case by simp
next
  case (Cons p ps)
  obtain r w where k: "os_kill I (os s) p SIGKILL = (r, w)"
    by (cases "os_kill I (os s) p SIGKILL")
  from assms have "fst (os_kill I (os s) p SIGKILL) \<in> {None, Some ProcessLookupError, Some PermissionError}"
    unfolding kill_errno_def by blast
  with k have "r = None \<or> r = Some ProcessLookupError \<or> r = Some PermissionError" by simp
  then show ?case
    using k Cons.IH by (auto simp: emits_def kills_of_def)
qed

lemma kill_all_try_returns:
  assumes p: "pgrep_runs I (os s)" and k: "kill_errno I"
  shows "fst (kill_all_try I s) = None"
proof (cases "pgrep I (os s) ''-aif'' appname")
  case (Inl e)
  from p have "case pgrep I (os s) ''-aif'' appname of
                 Inl e \<Rightarrow> e = CalledProcessError | Inr out \<Rightarrow> True"
    unfolding pgrep_runs_def by blast
  with Inl show ?thesis by (simp add: kill_all_try_def)
next
  case own: (Inr winecharm_pid_lines)
  show ?thesis
  proof (cases "pgrep I (os s) ''-aif'' exe_pattern")
    case (Inl e)
    from p have "case pgrep I (os s) ''-aif'' exe_pattern of
                   Inl e \<Rightarrow> e = CalledProcessError | Inr out \<Rightarrow> True"
      unfolding pgrep_runs_def by blast
    with Inl own show ?thesis by (simp add: kill_all_try_def)
  next
    case (Inr wine_exe_lines)
    let ?ps = "kill_all_pids winecharm_pid_lines wine_exe_lines"
    obtain s' where "kill_pids I ?ps s = (None, s')"
      using kill_pids_all [OF k, of ?ps s] by (cases "kill_pids I ?ps s") auto
    with own Inr show ?thesis by (simp add: kill_all_try_def)
  qed
qed

subsection \<open>C7: kill-all kills in reverse discovery order\<close>


lemma pgrep_runs_posix: "pgrep_installed w \<Longrightarrow> pgrep_runs posix w"
  by (simp add: pgrep_runs_def posix_def world_pgrep_def Let_def)


subsection \<open>C10: kill-all empties the registry\<close>

text \<open>
  C10. Whenever \<^verbatim>\<open>on_kill_all_clicked\<close> returns, \<^verbatim>\<open>running_processes\<close> is empty; and it
  does return whenever \<^verbatim>\<open>pgrep\<close> can be run and \<^verbatim>\<open>os.kill\<close> fails with process-not-found
  or permission-denied only, so a failed enumeration or failed kills do not keep any
  record, discovered ones included.
\<close>

theorem kill_all_clears_registry:
  "(fst (on_kill_all_clicked I s) = None \<longrightarrow>
      running_processes (snd (on_kill_all_clicked I s)) = []) \<and>
   (pgrep_runs I (os s) \<and> kill_errno I \<longrightarrow> fst (on_kill_all_clicked I s) = None)"
proof -
  obtain r s' where t: "kill_all_try I s = (r, s')" by (cases "kill_all_try I s")
  have a: "fst (on_kill_all_clicked I s) = None \<longrightarrow>
           running_processes (snd (on_kill_all_clicked I s)) = []"
    using t by (cases r) (simp_all add: on_kill_all_clicked_def emits_def)
  have b: "pgrep_runs I (os s) \<and> kill_errno I \<longrightarrow> fst (on_kill_all_clicked I s) = None"
  proof
    assume h: "pgrep_runs I (os s) \<and> kill_errno I"
    then have "fst (kill_all_try I s) = None"
      using kill_all_try_returns [of I s] by blast
    with t have "r = None" by simp
    with t show "fst (on_kill_all_clicked I s) = None"
      by (simp add: on_kill_all_clicked_def)
  qed
  from a b show ?thesis by simp
qed

theorem kill_all_clears_registry_witness:
  "pgrep_runs posix (os unlisted_app) \<and> kill_errno posix \<and>
   pgrep posix (os unlisted_app) ''-aif'' appname = Inl CalledProcessError \<and>
   running_processes unlisted_app \<noteq> [] \<and>
   fst (on_kill_all_clicked posix unlisted_app) = None \<and>
   running_processes (snd (on_kill_all_clicked posix unlisted_app)) = [] \<and>
   pgrep_runs posix (os exe_app) \<and>
   os_kill posix (os exe_app) 51 SIGKILL = (Some PermissionError, os exe_app) \<and>
   running_processes exe_app \<noteq> [] \<and>
   fst (on_kill_all_clicked posix exe_app) = None \<and>
   running_processes (snd (on_kill_all_clicked posix exe_app)) = []"
proof -
  have p1: "pgrep_runs posix (os unlisted_app)"
    by (rule pgrep_runs_posix) (simp add: unlisted_app_def exe_app_def exe_world_def empty_world_def)
  have p2: "pgrep_runs posix (os exe_app)"
    by (rule pgrep_runs_posix) (simp add: exe_app_def exe_world_def empty_world_def)
  have e1: "pgrep posix (os unlisted_app) ''-aif'' appname = Inl CalledProcessError"
    by code_simp
  have e2: "os_kill posix (os exe_app) 51 SIGKILL = (Some PermissionError, os exe_app)"
    by code_simp
  have r1: "running_processes unlisted_app \<noteq> []"
    by (simp add: unlisted_app_def exe_app_def)
  have r2: "running_processes exe_app \<noteq> []"
    by (simp add: exe_app_def)
  show ?thesis
    using kill_all_clears_registry [of posix unlisted_app] kill_all_clears_registry [of posix exe_app]
          p1 p2 e1 e2 r1 r2 kill_errno_posix
    by simp
qed

subsection \<open>C2: a missing executable\<close>

text \<open>
  C2. When the executable path read from the descriptor does not exist, \<^verbatim>\<open>launch_script\<close>
  shows the not-found dialog (the one with the locate button) and returns: the registry
  and the world are as before and no process was started.
\<close>

theorem launch_target_missing:
  assumes info: "extract_yaml_info I (os s) scr = Inr (exe_file, wineprefix, progname, script_args)"
    and missing: "\<not> path_exists I (os s) exe_file"
  shows "launch_script I scr play_stop_button button s =
           (None, s\<lparr>trace := trace s @ [Print (''Launching script '' @ scr),
                                         ShowExeNotFoundDialog (path_name exe_file) exe_file scr]\<rparr>) \<and>
         running_processes (snd (launch_script I scr play_stop_button button s)) = running_processes s \<and>
         os (snd (launch_script I scr play_stop_button button s)) = os s \<and>
         spawns_of (trace (snd (launch_script I scr play_stop_button button s))) = spawns_of (trace s)"
  using info missing by (simp add: launch_script_def emit_def spawns_of_def)

theorem launch_target_missing_witness:
  "extract_yaml_info posix (os missing_app) ''/p/A.charm'' = Inr (''/tmp/app.exe'', ''/p'', ''A'', []) \<and>
   \<not> path_exists posix (os missing_app) ''/tmp/app.exe'' \<and>
   launch_script posix ''/p/A.charm'' (PlayStopButton ''A'') (Some (FlowBoxChild ''A'')) missing_app =
     (None, missing_app\<lparr>trace := [Print ''Launching script /p/A.charm'',
                                   ShowExeNotFoundDialog ''app.exe'' ''/tmp/app.exe'' ''/p/A.charm'']\<rparr>) \<and>
   running_processes (snd (launch_script posix ''/p/A.charm'' (PlayStopButton ''A'')
                             (Some (FlowBoxChild ''A'')) missing_app)) = []"
proof -
  have info: "extract_yaml_info posix (os missing_app) ''/p/A.charm'' = Inr (''/tmp/app.exe'', ''/p'', ''A'', [])"
    by code_simp
  have missing: "\<not> path_exists posix (os missing_app) ''/tmp/app.exe''"
    by code_simp
  have n: "path_name ''/tmp/app.exe'' = ''app.exe''" by code_simp
  have t: "trace missing_app = []" "running_processes missing_app = []"
    by (simp_all add: missing_app_def)
  show ?thesis
    using launch_target_missing [OF info missing, of "PlayStopButton ''A''" "Some (FlowBoxChild ''A'')"]
          info missing n t
    by simp
qed

subsection \<open>C8: a second invocation hands its file over\<close>




subsection \<open>Facts about the registry keys\<close>

lemma quiet_refl: "quiet s s"
  by (simp add: quiet_def)

lemma quiet_trans: "quiet s t \<Longrightarrow> quiet t u \<Longrightarrow> quiet s u"
  by (simp add: quiet_def)

lemma quiet_update_related_loop:
  "quiet s (snd (update_related_loop I wineprefix scripts s))"
proof (induction scripts arbitrary: s)
  case Nil
  show ?case by (simp add: quiet_refl)
next
  case (Cons scr scripts)
  have step: "\<And>b. quiet s (emit (SelectChild b)
                            ((emits
                               [SetChild (NextSibling (FirstChild b)) ''media-playback-stop-symbolic'',
                                SetTooltip (NextSibling (FirstChild b)) ''Stop''] s)
                             \<lparr>running_processes :=
                                dict_setitem (path_stem scr) (discovered_info b scr)
                                  (running_processes s)\<rparr>))"
    by (simp add: quiet_def keys_distinct_def emit_def emits_def spawns_of_def
                  dict_keys_def dict_setitem_def distinct_update)
  show ?case
    using Cons.IH quiet_refl [of s] quiet_trans [OF step Cons.IH]
    by (auto split: sum.splits exn.splits option.splits)
qed


lemma quiet_update_related: "quiet s (snd (update_related_scripts_buttons I wineprefix s))"
  by (simp add: update_related_scripts_buttons_def quiet_update_related_loop)

















text \<open>Retirement by \<^verbatim>\<open>process_ended\<close>, run on the owner thread from the idle queue, keeps
  the keys distinct as well.\<close>

lemma process_ended_absent:
  "dict_get (running_processes s) script_stem = None \<Longrightarrow> process_ended I script_stem s = (None, s)"
  by (simp add: process_ended_def)

lemma quiet_process_ended: "quiet s (snd (process_ended I script_stem s))"
proof (cases "dict_get (running_processes s) script_stem")
  case None
  then show ?thesis by (simp add: process_ended_def quiet_refl)
next
  case (Some process_info)
  let ?s1 = "emits [SetChild (play_button process_info) ''media-playback-start-symbolic'',
                    SetTooltip (play_button process_info) ''Play'']
               (s\<lparr>running_processes := dict_pop script_stem (running_processes s)\<rparr>)"
  have q1: "quiet s ?s1"
    by (simp add: quiet_def keys_distinct_def emits_def spawns_of_def dict_keys_def dict_pop_def
                  distinct_delete)
  show ?thesis
  proof (cases "script process_info")
    case None
    then show ?thesis using Some q1 by (simp add: process_ended_def Let_def)
  next
    case scr: (Some scr)
    show ?thesis
    proof (cases "extract_yaml_info I (os ?s1) scr")
      case (Inl e)
      then show ?thesis using Some scr q1 by (simp add: process_ended_def Let_def)
    next
      case (Inr info)
      obtain exe_file wineprefix progname args where i: "info = (exe_file, wineprefix, progname, args)"
        by (cases info)
      show ?thesis
        using Some scr Inr i quiet_trans [OF q1 quiet_update_related [of ?s1 I wineprefix]]
        by (simp add: process_ended_def Let_def)
    qed
  qed
qed


subsection \<open>C1: at most one record for an identity\<close>



subsection \<open>The prober, case by case\<close>

text \<open>The order of the tests in one probe: the owned handle first, then the group
  signal, then the process listing.\<close>

lemma probe_owned_handle:
  "proc process_info = Some h \<Longrightarrow> poll I w h = Some rc \<Longrightarrow> probe I w process_info = Inr True"
  by (simp add: probe_def)

lemma probe_group_signal:
  assumes "proc process_info = None \<or> (\<exists>h. proc process_info = Some h \<and> poll I w h = None)"
    and "script process_info = Some scr" and "pgid process_info = Some g"
  shows "probe I w process_info =
           (case fst (os_killpg I w g 0) of
              None \<Rightarrow> Inr False
            | Some ProcessLookupError \<Rightarrow> Inr True
            | Some e \<Rightarrow> Inl e)"
  using assms by (auto simp: probe_def)

lemma probe_discovered:
  assumes "proc process_info = None" and "script process_info = Some scr"
    and "pgid process_info = None"
  shows "probe I w process_info =
           (case pgrep I w ''-aif'' (take 15 (path_stem scr)) of
              Inr pgrep_output \<Rightarrow>
                Inr (pgrep_output = [] \<or>
                     list_ex (\<lambda>line. str_in (lower appname) (lower (line_text line))) pgrep_output)
            | Inl CalledProcessError \<Rightarrow> Inr True
            | Inl e \<Rightarrow> Inl e)"
  using assms by (simp add: probe_def)

lemma monitor_cycle_keeps_registry_and_queues:
  "monitor_processes I [(w, reg)] =
     (case monitor_cycle I w reg of
        Inl e \<Rightarrow> ([Sleep 3], Some e)
      | Inr finished \<Rightarrow> (Sleep 3 # map (\<lambda>k. IdleAdd (ProcessEnded k)) finished, None))"
  by (simp split: sum.splits)

subsection \<open>C3: what the prober asks the process table\<close>


subsection \<open>C4: a failing query ends the prober\<close>


subsection \<open>C5: termination and the process group\<close>

text \<open>
  C5. Stopping a launch should kill its whole process group. \<^verbatim>\<open>terminate_script\<close> sends
  \<^verbatim>\<open>SIGKILL\<close> to the pids whose command line has the executable's name and sends nothing to
  the group: of group 50 the shell and the program are killed and the worker, pid 52,
  stays. \<^verbatim>\<open>stop_script\<close>, which nothing calls, does signal group 50 and leaves none of it,
  and then raises \<^verbatim>\<open>TypeError\<close>.
\<close>

theorem terminate_kills_by_name_not_group:
  "dict_get (running_processes group_app) ''game'' =
     Some (launched_info 50 50 (PlayStopButton ''game'') (FlowBoxChild ''game'') ''/p/game.charm'') \<and>
   fst (terminate_script posix ''/p/game.charm'' group_app) = None \<and>
   kills_of (trace (snd (terminate_script posix ''/p/game.charm'' group_app))) = [(50, 9), (51, 9)] \<and>
   group_kills_of (trace (snd (terminate_script posix ''/p/game.charm'' group_app))) = [] \<and>
   map p_pid (filter (\<lambda>p. p_pgid p = 50)
     (procs (os (snd (terminate_script posix ''/p/game.charm'' group_app))))) = [52] \<and>
   fst (stop_script posix (dict_get (running_processes group_app) ''game'') group_app) = Some TypeError \<and>
   group_kills_of (trace (snd (stop_script posix (dict_get (running_processes group_app) ''game'')
     group_app))) = [(50, 9)] \<and>
   map p_pid (filter (\<lambda>p. p_pgid p = 50)
     (procs (os (snd (stop_script posix (dict_get (running_processes group_app) ''game'')
        group_app))))) = []"
  by code_simp

subsection \<open>C6: termination that raises\<close>

text \<open>
  C6. \<^verbatim>\<open>terminate_script\<close> should never raise. When the listing for the executable's name
  holds a process of another user, \<^verbatim>\<open>os.kill\<close> raises \<^verbatim>\<open>PermissionError\<close>; the loop has a
  handler for \<^verbatim>\<open>ProcessLookupError\<close> only, and the exception leaves \<^verbatim>\<open>terminate_script\<close>.
\<close>

theorem terminate_raises_on_foreign_process:
  "dict_get (running_processes foreign_app) ''game'' =
     Some (discovered_info (FlowBoxChild ''game'') ''/p/game.charm'') \<and>
   pgrep posix (os foreign_app) ''-aif'' ''game'' = Inr [(60, ''Z:/q/game.exe'')] \<and>
   os_kill posix (os foreign_app) 60 SIGKILL = (Some PermissionError, os foreign_app) \<and>
   fst (terminate_script posix ''/p/game.charm'' foreign_app) = Some PermissionError"
  by code_simp

text \<open>Two further facts about termination. The rescan after the first kill can register
  the identity again while the second pid is still alive, so a second call right after
  the first finds a record and pops it. And a call for an identity without a record only
  prints.\<close>

lemma terminate_second_call_finds_rediscovered_record:
  "fst (terminate_script posix ''/p/game.charm'' group_app) = None \<and>
   running_processes (snd (terminate_script posix ''/p/game.charm'' group_app)) =
     [(''game'', discovered_info (FlowBoxChild ''game'') ''/p/game.charm'')] \<and>
   running_processes (snd (terminate_script posix ''/p/game.charm''
     (snd (terminate_script posix ''/p/game.charm'' group_app)))) = []"
  by code_simp

lemma terminate_absent_is_reported:
  assumes "dict_get (running_processes s) (path_stem scr) = None"
  shows "terminate_script I scr s =
           (None, emits [Print (''Terminating script: '' @ scr),
                         Print (''No running process found for '' @ scr)] s)"
  using assms by (simp add: terminate_script_def emit_def emits_def)

subsection \<open>C9: a malformed message ends the accept loop\<close>

text \<open>
  C9. A message that cannot be used should be dropped and the loop should serve the next
  connection. A well-formed message is handed over once. A message without the separator,
  or the client's own message for a file whose name contains two bars, does not split in
  two: the tuple assignment raises \<^verbatim>\<open>ValueError\<close>, the thread ends, and the well-formed
  message behind it is never served.
\<close>

theorem accept_loop_ends_on_malformed_message:
  "accept_loop posix [(setup_world, ''/home/u||games/setup.exe'')] =
     ([Print ''Resolved absolute file path: /home/u/games/setup.exe'',
       IdleAdd (ProcessCliFile ''/home/u/games/setup.exe'')], None) \<and>
   handle_message posix setup_world ''/home/u/games/setup.exe'' = Inl ValueError \<and>
   handle_message posix setup_world (getcwd posix setup_world @ ''||'' @ ''a||b.exe'') = Inl ValueError \<and>
   accept_loop posix [(setup_world, ''/home/u/games/setup.exe''),
                      (setup_world, ''/home/u||games/setup.exe'')] = ([], Some ValueError)"
  by code_simp

text \<open>The part that holds: a message of two parts whose directory exists is answered by
  one \<^verbatim>\<open>idle_add\<close> for each path of the glob that exists, in order.\<close>

lemma handle_message_hands_off_once:
  assumes "split_bars [] (take 1024 received) = [base, file_path]" and "take 1024 received \<noteq> []"
    and "path_exists I w (path_join base (join_slash (butlast (split_slash [] file_path))))"
    and "glob I w (path_join base (join_slash (butlast (split_slash [] file_path))))
           (last (split_slash [] file_path)) = Inr found"
  shows "\<exists>evs. handle_message I w received = Inr evs \<and>
               handoffs_of evs = filter (path_exists I w) found"
proof -
  have "\<And>xs. handoffs_of (concat (map (\<lambda>f.
           if path_exists I w f
           then [Print (''Resolved absolute file path: '' @ f), IdleAdd (ProcessCliFile f)]
           else [Print (''File does not exist: '' @ f)]) xs)) = filter (path_exists I w) xs"
    subgoal for xs by (induction xs) (simp_all add: handoffs_of_def)
    done
  then show ?thesis
    using assms by (cases "found = []") (simp_all add: handle_message_def Let_def handoffs_of_def)
qed

text \<open>The server thread removes a stale socket file, binds, then serves.\<close>

lemma server_thread_binds_first:
  "fst (server_thread I w connections) =
     (if path_exists I w SOCKET_FILE then [SocketUnlink] else []) @
     SocketBind # fst (accept_loop I connections)"
  by (simp add: server_thread_def split: prod.splits)

end
